theory Spec2Isabelle
  imports Main
begin

section \<open>JavaScript string and number primitives used by the booking pages\<close>

text \<open>
  The booking pages compute the end of an appointment from a start time string and a
  duration.  The primitives below are the fragments of the JavaScript standard library
  that this computation calls.  Strings are lists of characters.

  JavaScript's numbers are doubles.  Every integer up to \<open>2^53\<close> in magnitude is a
  double, and on such integers the operations used here (\<open>+\<close>, \<open>*\<close>, \<open>%\<close>,
  \<open>Math.floor(a / 60)\<close>, \<open>toString\<close>) give the exact integer result whenever that
  result is again within \<open>2^53\<close>.  Numbers are modelled by \<open>int\<close> inside this range;
  a computation that leaves it is outside the embedding, and the functions below
  return \<open>None\<close> for it.
\<close>

definition maxExact :: int where
  "maxExact = 9007199254740992"

definition exact :: "int \<Rightarrow> bool" where
  "exact i \<longleftrightarrow> - maxExact \<le> i \<and> i \<le> maxExact"

definition isDigit :: "char \<Rightarrow> bool" where
  "isDigit c \<longleftrightarrow> 48 \<le> (of_char c :: nat) \<and> (of_char c :: nat) \<le> 57"

definition digitVal :: "char \<Rightarrow> nat" where
  "digitVal c = (of_char c :: nat) - 48"

definition digitChar :: "nat \<Rightarrow> char" where
  "digitChar n = char_of (48 + n)"

text \<open>
  \<open>String.prototype.split(sep)\<close> for a one-character separator: the pieces between
  the separators, in order; the empty string gives one empty piece.
\<close>

fun split :: "char \<Rightarrow> string \<Rightarrow> string list" where
  "split sep [] = [[]]"
| "split sep (c # cs) =
     (if c = sep then [] # split sep cs
      else (case split sep cs of
              [] \<Rightarrow> [[c]]
            | p # ps \<Rightarrow> (c # p) # ps))"

text \<open>
  \<open>Number(s)\<close> on a string of decimal digits is its decimal value, and \<open>Number("")\<close>
  is \<open>0\<close>.  Every other string (signs, blanks, fractions, exponents, hexadecimal
  prefixes, text that makes \<open>NaN\<close>) and every digit string whose value is beyond
  \<open>2^53\<close> is outside this embedding: \<open>None\<close>.
\<close>

fun digitsValue :: "nat \<Rightarrow> string \<Rightarrow> nat option" where
  "digitsValue acc [] = Some acc"
| "digitsValue acc (c # cs) =
     (if isDigit c then digitsValue (acc * 10 + digitVal c) cs else None)"

definition Number :: "string \<Rightarrow> int option" where
  "Number s =
     (case digitsValue 0 s of
        None \<Rightarrow> None
      | Some n \<Rightarrow> if int n \<le> maxExact then Some (int n) else None)"

text \<open>
  \<open>Number.prototype.toString()\<close> on an integer within \<open>2^53\<close>: decimal digits,
  \<open>-\<close> first when negative.
\<close>

fun toStringNat :: "nat \<Rightarrow> string" where
  "toStringNat n =
     (if n < 10 then [digitChar n] else toStringNat (n div 10) @ [digitChar (n mod 10)])"

declare toStringNat.simps [simp del]

definition toString :: "int \<Rightarrow> string" where
  "toString i = (if i < 0 then CHR ''-'' # toStringNat (nat (- i)) else toStringNat (nat i))"

text \<open>\<open>s.padStart(2, "0")\<close>: zeros in front until the length is at least two.\<close>

definition padStart2 :: "string \<Rightarrow> string" where
  "padStart2 s = replicate (2 - length s) (CHR ''0'') @ s"

text \<open>
  JavaScript's \<open>%\<close> takes the sign of the dividend; \<open>Math.floor(a / 60)\<close> on an
  integer within \<open>2^53\<close> is HOL's \<open>div\<close>, which rounds down.
\<close>

definition jsRem :: "int \<Rightarrow> int \<Rightarrow> int" where
  "jsRem a b = (if a < 0 then - ((- a) mod \<bar>b\<bar>) else a mod \<bar>b\<bar>)"

section \<open>End time of a booking\<close>

text \<open>
  \<open>calculateEndTime\<close> of the public booking page:
  \<^verbatim>\<open>
  const [hours, minutes] = startTime.split(":").map(Number);
  const startMinutes = hours * 60 + minutes;
  const endMinutes = startMinutes + duration;
  const endHours = Math.floor(endMinutes / 60);
  const endMins = endMinutes % 60;
  return `${endHours.toString().padStart(2, "0")}:${endMins.toString().padStart(2, "0")}`;
  \<close>
  The result is \<open>None\<close> exactly when the call is outside the embedding: one of the
  first two pieces of the start time is outside the embedding of \<open>Number\<close> (or there
  is no second piece), or the duration, the product or one of the two sums is beyond
  \<open>2^53\<close>.
\<close>

definition startMinutesOf :: "string \<Rightarrow> int option" where
  "startMinutesOf startTime =
     (case map Number (split (CHR '':'') startTime) of
        Some hours # Some minutes # _ \<Rightarrow>
          (if exact (hours * 60) \<and> exact (hours * 60 + minutes)
           then Some (hours * 60 + minutes) else None)
      | _ \<Rightarrow> None)"

definition calculateEndTime :: "string \<Rightarrow> int \<Rightarrow> string option" where
  "calculateEndTime startTime duration =
     (case map Number (split (CHR '':'') startTime) of
        Some hours # Some minutes # _ \<Rightarrow>
          (let startMinutes = hours * 60 + minutes;
               endMinutes = startMinutes + duration;
               endHours = endMinutes div 60;
               endMins = jsRem endMinutes 60
           in if exact duration \<and> exact (hours * 60) \<and> exact startMinutes \<and> exact endMinutes
              then Some (padStart2 (toString endHours) @ '':'' @ padStart2 (toString endMins))
              else None)
      | _ \<Rightarrow> None)"

text \<open>
  \<open>parseInt(s)\<close> on a non-empty string of decimal digits is its decimal value.  The
  pages fill the fields they parse from \<open>id.toString()\<close>; every other string (the
  empty string and text, which make \<open>NaN\<close>; blanks, signs, a \<open>0x\<close> prefix, digits
  followed by other characters, values beyond \<open>2^53\<close>) is outside this embedding:
  \<open>None\<close>.
\<close>

definition parseInt :: "string \<Rightarrow> int option" where
  "parseInt s =
     (if s = [] \<or> \<not> list_all isDigit s then None
      else (case digitsValue 0 s of
              None \<Rightarrow> None
            | Some n \<Rightarrow> if int n \<le> maxExact then Some (int n) else None))"

section \<open>Tables of \<open>shared/schema.ts\<close>\<close>

text \<open>
  One record per table, one field per column.  A nullable column is an \<open>option\<close>;
  \<open>timestamp\<close> columns are points of an abstract clock.  Field names carry the
  table's initial, since the tables share column names.
\<close>

record Business =
  b_id :: int
  b_userId :: int
  b_name :: string
  b_industry :: string
  b_description :: "string option"
  b_email :: string
  b_phone :: string
  b_address :: "string option"
  b_website :: "string option"
  b_timezone :: string
  b_bookingSettings :: "string option"
  b_isActive :: bool
  b_createdAt :: nat

record Service =
  s_id :: int
  s_businessId :: int
  s_name :: string
  s_description :: "string option"
  s_price :: string
  s_duration :: int
  s_isActive :: bool
  s_createdAt :: nat

record Staff =
  st_id :: int
  st_businessId :: int
  st_name :: string
  st_email :: string
  st_phone :: "string option"
  st_role :: string
  st_isActive :: bool
  st_createdAt :: nat

record Customer =
  c_id :: int
  c_businessId :: int
  c_name :: string
  c_email :: "string option"
  c_phone :: "string option"
  c_notes :: "string option"
  c_createdAt :: nat

record Appointment =
  a_id :: int
  a_businessId :: int
  a_customerId :: int
  a_serviceId :: int
  a_staffId :: int
  a_date :: string
  a_startTime :: string
  a_endTime :: string
  a_status :: string
  a_notes :: "string option"
  a_createdAt :: nat

text \<open>
  The database: each table is the list of its rows in insertion order, and a \<open>select\<close>
  without \<open>orderBy\<close> is taken to return the matching rows in that order.  The two
  \<open>serial\<close> columns the booking flow writes draw their values from a sequence.
\<close>

record Db =
  businesses :: "Business list"
  services :: "Service list"
  staff :: "Staff list"
  customers :: "Customer list"
  appointments :: "Appointment list"
  customers_id_seq :: int
  appointments_id_seq :: int

text \<open>
  What the handlers can throw: a \<open>ZodError\<close> from a schema's \<open>parse\<close>, with the
  paths of the fields it rejects, and the errors of the database driver.
\<close>

datatype error =
    ZodError "string list"
  | ForeignKeyViolation string
  | UniqueViolation string
  | NoValuesToSet

section \<open>Insert schemas\<close>

text \<open>
  \<open>createInsertSchema(table).omit(...)\<close> makes an object schema from the columns that
  are left: a \<open>notNull\<close> column without default is required, a \<open>notNull\<close> column with
  a default is optional, a nullable column is optional and accepts \<open>null\<close>.  Unknown
  keys are stripped.  A text column is checked by \<open>z.string()\<close>, which accepts the
  empty string.

  A request body is modelled with typed fields: \<open>Some v\<close> is a field of the column's
  JSON type and \<open>None\<close> a field that is absent.  For a nullable column \<open>None\<close> also
  stands for \<open>null\<close>, which the schema accepts and the table stores like an absent
  field; for a required column \<open>null\<close> is rejected like an absent field.  Fields of
  another JSON type, and a \<open>null\<close> status, are outside the embedding.
\<close>

record CustomerData =
  cd_name :: "string option"
  cd_email :: "string option"
  cd_phone :: "string option"
  cd_notes :: "string option"

record InsertCustomer =
  ic_name :: string
  ic_email :: "string option"
  ic_phone :: "string option"
  ic_notes :: "string option"

definition insertCustomerSchema_parse :: "CustomerData \<Rightarrow> error + InsertCustomer" where
  "insertCustomerSchema_parse d =
     (case cd_name d of
        None \<Rightarrow> Inl (ZodError [''name''])
      | Some n \<Rightarrow>
          Inr \<lparr>ic_name = n, ic_email = cd_email d, ic_phone = cd_phone d,
               ic_notes = cd_notes d\<rparr>)"

record AppointmentData =
  ad_customerId :: "int option"
  ad_serviceId :: "int option"
  ad_staffId :: "int option"
  ad_date :: "string option"
  ad_startTime :: "string option"
  ad_endTime :: "string option"
  ad_status :: "string option"
  ad_notes :: "string option"

record InsertAppointment =
  ia_customerId :: int
  ia_serviceId :: int
  ia_staffId :: int
  ia_date :: string
  ia_startTime :: string
  ia_endTime :: string
  ia_status :: "string option"
  ia_notes :: "string option"

text \<open>
  An \<open>integer\<close> column is checked by \<open>z.number().int()\<close> within the range of the
  column's 32 bits.
\<close>

definition int4 :: "int \<Rightarrow> bool" where
  "int4 i \<longleftrightarrow> - 2147483648 \<le> i \<and> i \<le> 2147483647"

definition missing :: "string \<Rightarrow> 'a option \<Rightarrow> string list" where
  "missing path v = (case v of None \<Rightarrow> [path] | Some _ \<Rightarrow> [])"

definition invalidInt :: "string \<Rightarrow> int option \<Rightarrow> string list" where
  "invalidInt path v = (case v of None \<Rightarrow> [path] | Some i \<Rightarrow> if int4 i then [] else [path])"

definition insertAppointmentSchema_issues :: "AppointmentData \<Rightarrow> string list" where
  "insertAppointmentSchema_issues d =
     invalidInt ''customerId'' (ad_customerId d) @ invalidInt ''serviceId'' (ad_serviceId d) @
     invalidInt ''staffId'' (ad_staffId d) @ missing ''date'' (ad_date d) @
     missing ''startTime'' (ad_startTime d) @ missing ''endTime'' (ad_endTime d)"

definition insertAppointmentSchema_parse :: "AppointmentData \<Rightarrow> error + InsertAppointment" where
  "insertAppointmentSchema_parse d =
     (case (ad_customerId d, ad_serviceId d, ad_staffId d,
            ad_date d, ad_startTime d, ad_endTime d) of
        (Some cu, Some se, Some st, Some da, Some t0, Some t1) \<Rightarrow>
          (if int4 cu \<and> int4 se \<and> int4 st
           then Inr \<lparr>ia_customerId = cu, ia_serviceId = se, ia_staffId = st, ia_date = da,
                    ia_startTime = t0, ia_endTime = t1, ia_status = ad_status d,
                    ia_notes = ad_notes d\<rparr>
           else Inl (ZodError (insertAppointmentSchema_issues d)))
      | _ \<Rightarrow> Inl (ZodError (insertAppointmentSchema_issues d)))"

section \<open>\<open>DatabaseStorage\<close>\<close>

text \<open>JavaScript's truthiness of an optional string: absent and empty are falsy.\<close>

definition truthy :: "string option \<Rightarrow> bool" where
  "truthy v = (case v of None \<Rightarrow> False | Some s \<Rightarrow> s \<noteq> [])"

text \<open>
  \<^verbatim>\<open>
  async getCustomerByContact(businessId, email?, phone?) {
    if (email) {
      const [customer] = await db.select().from(customers)
        .where(and(eq(customers.businessId, businessId), eq(customers.email, email)));
      if (customer) return customer;
    }
    if (phone) {
      const [customer] = await db.select().from(customers)
        .where(and(eq(customers.businessId, businessId), eq(customers.phone, phone)));
      return customer || undefined;
    }
    return undefined;
  }
  \<close>
  \<open>const [customer] = rows\<close> is the first row, or \<open>undefined\<close> when there is none:
  \<open>find\<close>.  The function only reads the database.
\<close>

definition getCustomerByContact ::
  "Db \<Rightarrow> int \<Rightarrow> string option \<Rightarrow> string option \<Rightarrow> Customer option" where
  "getCustomerByContact db businessId email phone =
     (case (if truthy email
            then find (\<lambda>c. c_businessId c = businessId \<and> c_email c = email) (customers db)
            else None) of
        Some customer \<Rightarrow> Some customer
      | None \<Rightarrow>
          (if truthy phone
           then find (\<lambda>c. c_businessId c = businessId \<and> c_phone c = phone) (customers db)
           else None))"

text \<open>
  \<open>createCustomer\<close> inserts one row and returns it.  The row's \<open>id\<close> is the next value of
  the sequence, \<open>createdAt\<close> the time of the insert.  \<open>business_id\<close> references
  \<open>businesses.id\<close>: without such a business the insert fails, and the sequence value
  it drew stays used.
\<close>

definition createCustomer :: "Db \<Rightarrow> nat \<Rightarrow> InsertCustomer \<Rightarrow> int \<Rightarrow> Db \<times> (error + Customer)" where
  "createCustomer db now customer businessId =
     (let newCustomer =
            \<lparr>c_id = customers_id_seq db, c_businessId = businessId, c_name = ic_name customer,
             c_email = ic_email customer, c_phone = ic_phone customer,
             c_notes = ic_notes customer, c_createdAt = now\<rparr>;
          db1 = db\<lparr>customers_id_seq := customers_id_seq db + 1\<rparr>
      in if businessId \<notin> set (map b_id (businesses db))
         then (db1, Inl (ForeignKeyViolation ''customers.business_id''))
         else (db1\<lparr>customers := customers db @ [newCustomer]\<rparr>, Inr newCustomer))"

text \<open>
  \<open>createAppointment\<close> inserts one row and returns it; there is no other statement in
  it.  \<open>status\<close> has the column default \<open>pending\<close>.  The database rejects the row
  when its \<open>id\<close>, the next value of the sequence, is already the primary key of a
  row (an update can have moved a row to that \<open>id\<close>), and it checks the four
  references of the table in the order of the columns.
\<close>

definition appointment_fk_error :: "Db \<Rightarrow> Appointment \<Rightarrow> error option" where
  "appointment_fk_error db a =
     (if a_businessId a \<notin> set (map b_id (businesses db))
      then Some (ForeignKeyViolation ''appointments.business_id'')
      else if a_customerId a \<notin> set (map c_id (customers db))
      then Some (ForeignKeyViolation ''appointments.customer_id'')
      else if a_serviceId a \<notin> set (map s_id (services db))
      then Some (ForeignKeyViolation ''appointments.service_id'')
      else if a_staffId a \<notin> set (map st_id (staff db))
      then Some (ForeignKeyViolation ''appointments.staff_id'')
      else None)"

definition createAppointment ::
  "Db \<Rightarrow> nat \<Rightarrow> InsertAppointment \<Rightarrow> int \<Rightarrow> Db \<times> (error + Appointment)" where
  "createAppointment db now appointment businessId =
     (let newAppointment =
            \<lparr>a_id = appointments_id_seq db, a_businessId = businessId,
             a_customerId = ia_customerId appointment, a_serviceId = ia_serviceId appointment,
             a_staffId = ia_staffId appointment, a_date = ia_date appointment,
             a_startTime = ia_startTime appointment, a_endTime = ia_endTime appointment,
             a_status = (case ia_status appointment of None \<Rightarrow> ''pending'' | Some s \<Rightarrow> s),
             a_notes = ia_notes appointment, a_createdAt = now\<rparr>;
          db1 = db\<lparr>appointments_id_seq := appointments_id_seq db + 1\<rparr>
      in if a_id newAppointment \<in> set (map a_id (appointments db))
         then (db1, Inl (UniqueViolation ''appointments_pkey''))
         else (case appointment_fk_error db newAppointment of
                 Some e \<Rightarrow> (db1, Inl e)
               | None \<Rightarrow>
                   (db1\<lparr>appointments := appointments db @ [newAppointment]\<rparr>,
                    Inr newAppointment)))"

definition getAppointment :: "Db \<Rightarrow> int \<Rightarrow> Appointment option" where
  "getAppointment db i = find (\<lambda>a. a_id a = i) (appointments db)"

text \<open>
  \<open>updateAppointment(id, appointment)\<close> with \<open>appointment: Partial<Appointment>\<close>:
  \<^verbatim>\<open>
  const [updatedAppointment] = await db.update(appointments).set(appointment)
    .where(eq(appointments.id, id)).returning();
  return updatedAppointment;
  \<close>
  A field that is \<open>undefined\<close> keeps the column; \<open>set\<close> throws when no field is
  defined.  The statement writes the given fields over the row with that \<open>id\<close>, whatever
  the row holds; when there is no such row the result is \<open>undefined\<close>.  The database
  checks the primary key and the references that the update changes.
\<close>

record AppointmentPatch =
  p_id :: "int option"
  p_businessId :: "int option"
  p_customerId :: "int option"
  p_serviceId :: "int option"
  p_staffId :: "int option"
  p_date :: "string option"
  p_startTime :: "string option"
  p_endTime :: "string option"
  p_status :: "string option"
  p_notes :: "string option option"
  p_createdAt :: "nat option"

definition orKeep :: "'a option \<Rightarrow> 'a \<Rightarrow> 'a" where
  "orKeep v old = (case v of None \<Rightarrow> old | Some new \<Rightarrow> new)"

definition noValues :: "AppointmentPatch \<Rightarrow> bool" where
  "noValues p \<longleftrightarrow>
     p_id p = None \<and> p_businessId p = None \<and> p_customerId p = None \<and>
     p_serviceId p = None \<and> p_staffId p = None \<and> p_date p = None \<and>
     p_startTime p = None \<and> p_endTime p = None \<and> p_status p = None \<and>
     p_notes p = None \<and> p_createdAt p = None"

definition applyPatch :: "AppointmentPatch \<Rightarrow> Appointment \<Rightarrow> Appointment" where
  "applyPatch p a =
     \<lparr>a_id = orKeep (p_id p) (a_id a), a_businessId = orKeep (p_businessId p) (a_businessId a),
      a_customerId = orKeep (p_customerId p) (a_customerId a),
      a_serviceId = orKeep (p_serviceId p) (a_serviceId a),
      a_staffId = orKeep (p_staffId p) (a_staffId a), a_date = orKeep (p_date p) (a_date a),
      a_startTime = orKeep (p_startTime p) (a_startTime a),
      a_endTime = orKeep (p_endTime p) (a_endTime a),
      a_status = orKeep (p_status p) (a_status a), a_notes = orKeep (p_notes p) (a_notes a),
      a_createdAt = orKeep (p_createdAt p) (a_createdAt a)\<rparr>"

definition update_constraint_error :: "Db \<Rightarrow> Appointment \<Rightarrow> Appointment \<Rightarrow> error option" where
  "update_constraint_error db old new =
     (if a_id new \<noteq> a_id old \<and> a_id new \<in> set (map a_id (appointments db))
      then Some (UniqueViolation ''appointments_pkey'')
      else if a_businessId new \<noteq> a_businessId old
              \<and> a_businessId new \<notin> set (map b_id (businesses db))
      then Some (ForeignKeyViolation ''appointments.business_id'')
      else if a_customerId new \<noteq> a_customerId old
              \<and> a_customerId new \<notin> set (map c_id (customers db))
      then Some (ForeignKeyViolation ''appointments.customer_id'')
      else if a_serviceId new \<noteq> a_serviceId old
              \<and> a_serviceId new \<notin> set (map s_id (services db))
      then Some (ForeignKeyViolation ''appointments.service_id'')
      else if a_staffId new \<noteq> a_staffId old
              \<and> a_staffId new \<notin> set (map st_id (staff db))
      then Some (ForeignKeyViolation ''appointments.staff_id'')
      else None)"

definition updateAppointment ::
  "Db \<Rightarrow> int \<Rightarrow> AppointmentPatch \<Rightarrow> Db \<times> (error + Appointment option)" where
  "updateAppointment db i appointment =
     (if noValues appointment then (db, Inl NoValuesToSet)
      else (case find (\<lambda>a. a_id a = i) (appointments db) of
              None \<Rightarrow> (db, Inr None)
            | Some old \<Rightarrow>
                (let updatedAppointment = applyPatch appointment old
                 in case update_constraint_error db old updatedAppointment of
                      Some e \<Rightarrow> (db, Inl e)
                    | None \<Rightarrow>
                        (db\<lparr>appointments :=
                              map (\<lambda>a. if a_id a = i then applyPatch appointment a else a)
                                (appointments db)\<rparr>,
                         Inr (Some updatedAppointment)))))"

section \<open>The public booking route\<close>

text \<open>
  \<open>POST /api/book/:businessId/appointment\<close>, on a request whose path parameter is a
  number and whose body holds \<open>customerData\<close> and \<open>appointmentData\<close>:
  \<^verbatim>\<open>
  let customer = await storage.getCustomerByContact(
    businessId, customerData.email, customerData.phone);
  if (!customer) {
    const validatedCustomer = insertCustomerSchema.parse(customerData);
    customer = await storage.createCustomer({ ...validatedCustomer, businessId });
  }
  const validatedAppointment = insertAppointmentSchema.parse(appointmentData);
  const appointment = await storage.createAppointment({
    ...validatedAppointment, customerId: customer.id, businessId });
  res.status(201).json({ appointment, customer });
  \<close>
  Each \<open>await\<close> is a statement of its own against the database: the handler opens no
  transaction.  An exception ends the handler at that statement (\<open>next(error)\<close>) with
  the database as the statements before it left it.
\<close>

definition findOrCreateCustomer ::
  "Db \<Rightarrow> nat \<Rightarrow> int \<Rightarrow> CustomerData \<Rightarrow> Db \<times> (error + Customer)" where
  "findOrCreateCustomer db now businessId customerData =
     (case getCustomerByContact db businessId (cd_email customerData) (cd_phone customerData) of
        Some customer \<Rightarrow> (db, Inr customer)
      | None \<Rightarrow>
          (case insertCustomerSchema_parse customerData of
             Inl e \<Rightarrow> (db, Inl e)
           | Inr validatedCustomer \<Rightarrow> createCustomer db now validatedCustomer businessId))"

definition postBookAppointment ::
  "Db \<Rightarrow> nat \<Rightarrow> int \<Rightarrow> CustomerData \<Rightarrow> AppointmentData
     \<Rightarrow> Db \<times> (error + Appointment \<times> Customer)" where
  "postBookAppointment db now businessId customerData appointmentData =
     (case findOrCreateCustomer db now businessId customerData of
        (db1, Inl e) \<Rightarrow> (db1, Inl e)
      | (db1, Inr customer) \<Rightarrow>
          (case insertAppointmentSchema_parse appointmentData of
             Inl e \<Rightarrow> (db1, Inl e)
           | Inr validatedAppointment \<Rightarrow>
               (case createAppointment db1 now
                       (validatedAppointment\<lparr>ia_customerId := c_id customer\<rparr>) businessId of
                  (db2, Inl e) \<Rightarrow> (db2, Inl e)
                | (db2, Inr appointment) \<Rightarrow> (db2, Inr (appointment, customer)))))"

section \<open>The authenticated management route\<close>




section \<open>Request bodies built by the pages\<close>

text \<open>
  The three forms share their fields; \<open>f_date\<close> is the chosen day as \<open>yyyy-MM-dd\<close>
  (the pages with a date picker print it with \<open>format(data.date, "yyyy-MM-dd")\<close>), and
  only the booking page with a notes box reads \<open>f_notes\<close>.  Each \<open>mutationFn\<close> builds
  \<open>customerData\<close> and \<open>appointmentData\<close> and posts them to the public booking route;
  the dashboard's dialog for staff posts to that route too.  A builder is \<open>None\<close> when
  the form is outside the embedding: \<open>parseInt\<close> of the service or staff field, or the
  computation of the end time, is.
\<close>

record BookingForm =
  f_customerName :: string
  f_customerEmail :: "string option"
  f_customerPhone :: string
  f_serviceId :: string
  f_staffId :: string
  f_date :: string
  f_time :: string
  f_notes :: "string option"

text \<open>\<open>v || undefined\<close> on an optional string.\<close>

definition orUndefined :: "string option \<Rightarrow> string option" where
  "orUndefined v = (if truthy v then v else None)"

text \<open>
  \<open>services.find(s => s.id === parseInt(data.serviceId))?.duration || 60\<close>, on the
  parsed id: the duration of the first service with that id, and 60 when there is none
  or its duration is 0.
\<close>

definition selectedDuration :: "Service list \<Rightarrow> int \<Rightarrow> int" where
  "selectedDuration svcs serviceId =
     (case find (\<lambda>s. s_id s = serviceId) svcs of
        None \<Rightarrow> 60
      | Some selectedService \<Rightarrow>
          (if s_duration selectedService = 0 then 60 else s_duration selectedService))"

text \<open>The public booking page that calls \<open>calculateEndTime\<close> and asks for \<open>pending\<close>.\<close>

definition bookingPage_mutation ::
  "Service list \<Rightarrow> BookingForm \<Rightarrow> (CustomerData \<times> AppointmentData) option" where
  "bookingPage_mutation svcs data =
     (let customerData =
            \<lparr>cd_name = Some (f_customerName data), cd_email = orUndefined (f_customerEmail data),
             cd_phone = Some (f_customerPhone data), cd_notes = orUndefined (f_notes data)\<rparr>
      in case (parseInt (f_serviceId data), parseInt (f_staffId data)) of
           (Some serviceId, Some staffId) \<Rightarrow>
             (case calculateEndTime (f_time data) (selectedDuration svcs serviceId) of
                None \<Rightarrow> None
              | Some endTime \<Rightarrow>
                  Some (customerData,
                        \<lparr>ad_customerId = None, ad_serviceId = Some serviceId,
                         ad_staffId = Some staffId, ad_date = Some (f_date data),
                         ad_startTime = Some (f_time data), ad_endTime = Some endTime,
                         ad_status = Some ''pending'', ad_notes = orUndefined (f_notes data)\<rparr>))
         | _ \<Rightarrow> None)"

text \<open>
  The public booking page \<open>book.tsx\<close> and the dashboard's new-appointment dialog compute
  the end time in line, with the same statements, and ask for \<open>confirmed\<close>.
\<close>

definition inlineEndTime :: "Service list \<Rightarrow> int \<Rightarrow> string \<Rightarrow> string option" where
  "inlineEndTime svcs serviceId time =
     (case map Number (split (CHR '':'') time) of
        Some hours # Some minutes # _ \<Rightarrow>
          (let duration = selectedDuration svcs serviceId;
               startMinutes = hours * 60 + minutes;
               endMinutes = startMinutes + duration;
               endHours = endMinutes div 60;
               endMins = jsRem endMinutes 60
           in if exact duration \<and> exact (hours * 60) \<and> exact startMinutes \<and> exact endMinutes
              then Some (padStart2 (toString endHours) @ '':'' @ padStart2 (toString endMins))
              else None)
      | _ \<Rightarrow> None)"

definition book_mutation ::
  "Service list \<Rightarrow> BookingForm \<Rightarrow> (CustomerData \<times> AppointmentData) option" where
  "book_mutation svcs data =
     (let customerData =
            \<lparr>cd_name = Some (f_customerName data), cd_email = orUndefined (f_customerEmail data),
             cd_phone = Some (f_customerPhone data), cd_notes = None\<rparr>
      in case (parseInt (f_serviceId data), parseInt (f_staffId data)) of
           (Some serviceId, Some staffId) \<Rightarrow>
             (case inlineEndTime svcs serviceId (f_time data) of
                None \<Rightarrow> None
              | Some endTime \<Rightarrow>
                  Some (customerData,
                        \<lparr>ad_customerId = None, ad_serviceId = Some serviceId,
                         ad_staffId = Some staffId, ad_date = Some (f_date data),
                         ad_startTime = Some (f_time data), ad_endTime = Some endTime,
                         ad_status = Some ''confirmed'', ad_notes = None\<rparr>))
         | _ \<Rightarrow> None)"

definition dashboard_mutation ::
  "Service list \<Rightarrow> BookingForm \<Rightarrow> (CustomerData \<times> AppointmentData) option" where
  "dashboard_mutation svcs data =
     (let customerData =
            \<lparr>cd_name = Some (f_customerName data), cd_email = orUndefined (f_customerEmail data),
             cd_phone = Some (f_customerPhone data), cd_notes = None\<rparr>
      in case (parseInt (f_serviceId data), parseInt (f_staffId data)) of
           (Some serviceId, Some staffId) \<Rightarrow>
             (case inlineEndTime svcs serviceId (f_time data) of
                None \<Rightarrow> None
              | Some endTime \<Rightarrow>
                  Some (customerData,
                        \<lparr>ad_customerId = None, ad_serviceId = Some serviceId,
                         ad_staffId = Some staffId, ad_date = Some (f_date data),
                         ad_startTime = Some (f_time data), ad_endTime = Some endTime,
                         ad_status = Some ''confirmed'', ad_notes = None\<rparr>))
         | _ \<Rightarrow> None)"


section \<open>Predicates and data of the statements\<close>

text \<open>
  The two lookups of \<open>getCustomerByContact\<close>, as predicates on a row: the row belongs to
  the business, the request's field is truthy, and the column equals it.
\<close>

definition emailMatch :: "int \<Rightarrow> CustomerData \<Rightarrow> Customer \<Rightarrow> bool" where
  "emailMatch bid cd c \<longleftrightarrow>
     c_businessId c = bid \<and> truthy (cd_email cd) \<and> c_email c = cd_email cd"

definition phoneMatch :: "int \<Rightarrow> CustomerData \<Rightarrow> Customer \<Rightarrow> bool" where
  "phoneMatch bid cd c \<longleftrightarrow>
     c_businessId c = bid \<and> truthy (cd_phone cd) \<and> c_phone c = cd_phone cd"

text \<open>The update that sets the status and nothing else: \<open>{ status: s }\<close>.\<close>

definition statusPatch :: "string \<Rightarrow> AppointmentPatch" where
  "statusPatch s =
     \<lparr>p_id = None, p_businessId = None, p_customerId = None, p_serviceId = None,
      p_staffId = None, p_date = None, p_startTime = None, p_endTime = None,
      p_status = Some s, p_notes = None, p_createdAt = None\<rparr>"

text \<open>
  The scenario of the specification: business 1 with one service of 30 minutes, staff
  member 1, customer Ann who left only a phone number, and her confirmed appointment on
  2024-01-10 from 10:00 to 10:30.
\<close>

definition scenarioDb :: Db where
  "scenarioDb =
     \<lparr>businesses =
        [\<lparr>b_id = 1, b_userId = 1, b_name = ''B'', b_industry = ''salon'', b_description = None,
          b_email = ''b@example.com'', b_phone = ''555-0000'', b_address = None,
          b_website = None, b_timezone = ''UTC'', b_bookingSettings = None,
          b_isActive = True, b_createdAt = 0\<rparr>],
      services =
        [\<lparr>s_id = 1, s_businessId = 1, s_name = ''Cut'', s_description = None,
          s_price = ''20.00'', s_duration = 30, s_isActive = True, s_createdAt = 0\<rparr>],
      staff =
        [\<lparr>st_id = 1, st_businessId = 1, st_name = ''S'', st_email = ''s@example.com'',
          st_phone = None, st_role = ''staff'', st_isActive = True, st_createdAt = 0\<rparr>],
      customers =
        [\<lparr>c_id = 1, c_businessId = 1, c_name = ''Ann'', c_email = None,
          c_phone = Some ''555-0100'', c_notes = None, c_createdAt = 1\<rparr>],
      appointments =
        [\<lparr>a_id = 1, a_businessId = 1, a_customerId = 1, a_serviceId = 1, a_staffId = 1,
          a_date = ''2024-01-10'', a_startTime = ''10:00'', a_endTime = ''10:30'',
          a_status = ''confirmed'', a_notes = None, a_createdAt = 2\<rparr>],
      customers_id_seq = 2,
      appointments_id_seq = 2\<rparr>"

text \<open>The same database after the appointment was set to \<open>completed\<close>.\<close>

definition completedDb :: Db where
  "completedDb = fst (updateAppointment scenarioDb 1 (statusPatch ''completed''))"

text \<open>Request bodies and a filled form for the scenario.\<close>

definition annByPhone :: CustomerData where
  "annByPhone =
     \<lparr>cd_name = Some ''Ann'', cd_email = None, cd_phone = Some ''555-0100'',
      cd_notes = None\<rparr>"

definition zedByEmail :: CustomerData where
  "zedByEmail =
     \<lparr>cd_name = Some ''Zed'', cd_email = Some ''zed@example.com'', cd_phone = None,
      cd_notes = None\<rparr>"

definition zedOtherPhone :: CustomerData where
  "zedOtherPhone =
     \<lparr>cd_name = Some ''Zed Z'', cd_email = Some ''zed@example.com'', cd_phone = Some ''555-0177'',
      cd_notes = None\<rparr>"

definition annEmailPhone :: CustomerData where
  "annEmailPhone =
     \<lparr>cd_name = Some ''Ann'', cd_email = Some ''ann@example.com'', cd_phone = Some ''555-0100'',
      cd_notes = None\<rparr>"

definition annEmailOtherPhone :: CustomerData where
  "annEmailOtherPhone =
     \<lparr>cd_name = Some ''Ann'', cd_email = Some ''ann@example.com'', cd_phone = Some ''555-0199'',
      cd_notes = None\<rparr>"

definition blankEmail :: CustomerData where
  "blankEmail =
     \<lparr>cd_name = Some ''Bob'', cd_email = Some [], cd_phone = None, cd_notes = None\<rparr>"

definition noName :: CustomerData where
  "noName =
     \<lparr>cd_name = None, cd_email = Some ''zed@example.com'', cd_phone = None, cd_notes = None\<rparr>"

definition emptyName :: CustomerData where
  "emptyName =
     \<lparr>cd_name = Some [], cd_email = Some ''zed@example.com'', cd_phone = None, cd_notes = None\<rparr>"

definition bookingRequest :: "string \<Rightarrow> string \<Rightarrow> AppointmentData" where
  "bookingRequest t0 t1 =
     \<lparr>ad_customerId = Some 0, ad_serviceId = Some 1, ad_staffId = Some 1,
      ad_date = Some ''2024-01-10'', ad_startTime = Some t0, ad_endTime = Some t1,
      ad_status = Some ''pending'', ad_notes = None\<rparr>"



definition noDate :: AppointmentData where
  "noDate =
     \<lparr>ad_customerId = Some 0, ad_serviceId = Some 1, ad_staffId = Some 1, ad_date = None,
      ad_startTime = Some ''11:00'', ad_endTime = Some ''11:30'', ad_status = Some ''pending'',
      ad_notes = None\<rparr>"



text \<open>A list of services with one service of 45 minutes, and two filled forms.\<close>

definition menu :: "Service list" where
  "menu =
     [\<lparr>s_id = 7, s_businessId = 1, s_name = ''Colour'', s_description = None,
       s_price = ''60.00'', s_duration = 45, s_isActive = True, s_createdAt = 0\<rparr>]"


definition form2330 :: BookingForm where
  "form2330 =
     \<lparr>f_customerName = ''Ann'', f_customerEmail = Some [], f_customerPhone = ''555-0100'',
      f_serviceId = ''9'', f_staffId = ''1'', f_date = ''2024-01-10'', f_time = ''23:30'',
      f_notes = None\<rparr>"

section \<open>Properties of the end-time computation\<close>

lemma split_nosep: "sep \<notin> set s \<Longrightarrow> split sep s = [s]"
  by (induction s) auto

lemma split_app: "sep \<notin> set p \<Longrightarrow> split sep (p @ sep # r) = p # split sep r"
  by (induction p) auto

lemma digitsValue_append:
  "digitsValue acc (xs @ ys) =
     (case digitsValue acc xs of None \<Rightarrow> None | Some v \<Rightarrow> digitsValue v ys)"
  by (induction xs arbitrary: acc) auto

lemma isDigit_digitChar: "n < 10 \<Longrightarrow> isDigit (digitChar n)"
  by (simp add: isDigit_def digitChar_def)

lemma digitVal_digitChar: "n < 10 \<Longrightarrow> digitVal (digitChar n) = n"
  by (simp add: digitVal_def digitChar_def)

lemma digitVal_le: "isDigit c \<Longrightarrow> digitVal c \<le> 9"
  unfolding isDigit_def digitVal_def by linarith

lemma digitChar_not_zero: "0 < n \<Longrightarrow> n < 10 \<Longrightarrow> digitChar n \<noteq> CHR ''0''"
proof
  assume n: "0 < n" "n < 10" and eq: "digitChar n = CHR ''0''"
  from n(2) have "digitVal (digitChar n) = n" by (rule digitVal_digitChar)
  with eq have "n = 0" by (simp add: digitVal_def)
  with n(1) show False by simp
qed

lemma isDigit_not_colon: "isDigit c \<Longrightarrow> c \<noteq> CHR '':''"
  by (auto simp: isDigit_def)

lemma digits_no_colon: "list_all isDigit s \<Longrightarrow> CHR '':'' \<notin> set s"
  by (induction s) (auto dest: isDigit_not_colon)

lemma toStringNat_small: "n < 10 \<Longrightarrow> toStringNat n = [digitChar n]"
  by (subst toStringNat.simps) simp

lemma toStringNat_large:
  "\<not> n < 10 \<Longrightarrow> toStringNat n = toStringNat (n div 10) @ [digitChar (n mod 10)]"
  by (subst toStringNat.simps) simp

lemma toStringNat_ne: "toStringNat n \<noteq> []"
  by (cases "n < 10") (simp_all add: toStringNat_small toStringNat_large)

lemma digitsValue_toStringNat: "digitsValue 0 (toStringNat n) = Some n"
proof (induction n rule: toStringNat.induct)
  case (1 n)
  show ?case
  proof (cases "n < 10")
    case True
    then show ?thesis
      by (simp add: toStringNat_small isDigit_digitChar digitVal_digitChar)
  next
    case False
    with 1 have "digitsValue 0 (toStringNat (n div 10)) = Some (n div 10)" by simp
    with False show ?thesis
      by (simp add: toStringNat_large digitsValue_append isDigit_digitChar digitVal_digitChar)
  qed
qed

lemma toStringNat_digits: "list_all isDigit (toStringNat n)"
proof (induction n rule: toStringNat.induct)
  case (1 n)
  show ?case
  proof (cases "n < 10")
    case True
    then show ?thesis by (simp add: toStringNat_small isDigit_digitChar)
  next
    case False
    with 1 have "list_all isDigit (toStringNat (n div 10))" by simp
    with False show ?thesis by (simp add: toStringNat_large isDigit_digitChar)
  qed
qed

lemma toStringNat_length: "n < 100 \<Longrightarrow> length (toStringNat n) \<le> 2"
proof (cases "n < 10")
  case True
  then show ?thesis by (simp add: toStringNat_small)
next
  case False
  assume "n < 100"
  then have "n div 10 < 10" by simp
  then have "toStringNat (n div 10) = [digitChar (n div 10)]" by (rule toStringNat_small)
  with False show ?thesis by (simp add: toStringNat_large)
qed

lemma toStringNat_length2: "10 \<le> n \<Longrightarrow> 2 \<le> length (toStringNat n)"
proof -
  assume "10 \<le> n"
  then have "toStringNat n = toStringNat (n div 10) @ [digitChar (n mod 10)]"
    by (simp add: toStringNat_large)
  moreover have "1 \<le> length (toStringNat (n div 10))"
    using toStringNat_ne [of "n div 10"] by (cases "toStringNat (n div 10)") simp_all
  ultimately show ?thesis by simp
qed

lemma toStringNat_length3: "100 \<le> n \<Longrightarrow> 3 \<le> length (toStringNat n)"
proof -
  assume n: "100 \<le> n"
  then have "toStringNat n = toStringNat (n div 10) @ [digitChar (n mod 10)]"
    by (simp add: toStringNat_large)
  moreover from n have "2 \<le> length (toStringNat (n div 10))"
    by (intro toStringNat_length2) simp
  ultimately show ?thesis by simp
qed

lemma hd_toStringNat: "0 < n \<Longrightarrow> hd (toStringNat n) \<noteq> CHR ''0''"
proof (induction n rule: toStringNat.induct)
  case (1 n)
  show ?case
  proof (cases "n < 10")
    case True
    with 1(2) show ?thesis by (simp add: toStringNat_small digitChar_not_zero)
  next
    case False
    then have "0 < n div 10" by simp
    with 1(1) False have "hd (toStringNat (n div 10)) \<noteq> CHR ''0''" by simp
    with False show ?thesis by (simp add: toStringNat_large toStringNat_ne)
  qed
qed

lemma digitsValue_zeros: "digitsValue 0 (replicate k (CHR ''0'') @ s) = digitsValue 0 s"
  by (induction k) (auto simp: isDigit_def digitVal_def)

lemma zeros_digits: "list_all isDigit (replicate k (CHR ''0''))"
  by (induction k) (simp_all add: isDigit_def)

lemma padStart2_digits: "list_all isDigit s \<Longrightarrow> list_all isDigit (padStart2 s)"
  by (simp add: padStart2_def zeros_digits)

lemma padStart2_length: "2 \<le> length (padStart2 s)"
  by (simp add: padStart2_def)

lemma padStart2_length_eq: "length s \<le> 2 \<Longrightarrow> length (padStart2 s) = 2"
  by (simp add: padStart2_def)

lemma padStart2_long: "2 \<le> length s \<Longrightarrow> padStart2 s = s"
  by (simp add: padStart2_def)

lemma Number_padStart2_toString:
  "0 \<le> i \<Longrightarrow> i \<le> maxExact \<Longrightarrow> Number (padStart2 (toString i)) = Some i"
  by (simp add: Number_def padStart2_def toString_def digitsValue_zeros digitsValue_toStringNat)

lemma HHMM_pieces:
  assumes "isDigit h1" "isDigit h2" "isDigit m1" "isDigit m2"
  shows "map Number (split (CHR '':'') [h1, h2, CHR '':'', m1, m2]) =
           [Some (int (digitVal h1 * 10 + digitVal h2)), Some (int (digitVal m1 * 10 + digitVal m2))]"
proof -
  have s: "split (CHR '':'') [h1, h2, CHR '':'', m1, m2] = [[h1, h2], [m1, m2]]"
    using assms by (auto dest: isDigit_not_colon)
  have "digitVal h1 * 10 + digitVal h2 \<le> 99" "digitVal m1 * 10 + digitVal m2 \<le> 99"
    using assms [THEN digitVal_le] by simp_all
  then have "int (digitVal h1 * 10 + digitVal h2) \<le> maxExact"
    "int (digitVal m1 * 10 + digitVal m2) \<le> maxExact"
    by (simp_all add: maxExact_def)
  then show ?thesis unfolding s using assms by (simp add: Number_def)
qed

lemma HHMM_bounds:
  assumes "isDigit h1" "isDigit h2" "isDigit m1" "isDigit m2"
  shows "int (digitVal h1 * 10 + digitVal h2) * 60 + int (digitVal m1 * 10 + digitVal m2) \<le> 6039"
proof -
  have "digitVal h1 * 10 + digitVal h2 \<le> 99" "digitVal m1 * 10 + digitVal m2 \<le> 99"
    using assms [THEN digitVal_le] by simp_all
  then show ?thesis by simp
qed


text \<open>
  The shape of every result for a start of at most 99 hours and 99 minutes, a total of
  minutes that is not negative and a duration within the exact range.
\<close>

lemma calculateEndTime_shape:
  assumes p: "map Number (split (CHR '':'') startTime) = [Some h, Some mi]"
    and nn: "0 \<le> h" "0 \<le> mi" and sm: "h * 60 + mi \<le> 6039"
    and e0: "0 \<le> h * 60 + mi + duration"
    and b: "duration \<le> maxExact - 6039"
  shows "\<exists>hh mm. calculateEndTime startTime duration = Some (hh @ '':'' @ mm) \<and>
           list_all isDigit hh \<and> list_all isDigit mm \<and> 2 \<le> length hh \<and> length mm = 2 \<and>
           (h * 60 + mi + duration < 6000 \<longrightarrow> length hh = 2) \<and>
           (6000 \<le> h * 60 + mi + duration \<longrightarrow> 2 < length hh \<and> hd hh \<noteq> CHR ''0'') \<and>
           Number hh = Some ((h * 60 + mi + duration) div 60) \<and>
           Number mm = Some ((h * 60 + mi + duration) mod 60) \<and>
           split (CHR '':'') (hh @ '':'' @ mm) = [hh, mm] \<and>
           startMinutesOf (hh @ '':'' @ mm) = Some (h * 60 + mi + duration)"
proof -
  define e where "e = h * 60 + mi + duration"
  define hh where "hh = padStart2 (toString (e div 60))"
  define mm where "mm = padStart2 (toString (e mod 60))"
  have e0': "0 \<le> e" using e0 by (simp add: e_def)
  have eb: "e \<le> maxExact" using sm b by (simp add: e_def)
  have h60: "0 \<le> h * 60" "h * 60 \<le> 6039" using nn sm by simp_all
  have ex: "exact duration" "exact (h * 60)" "exact (h * 60 + mi)" "exact e"
    using e0' eb h60 nn sm b e0 by (simp_all add: exact_def maxExact_def e_def)
  have ce: "calculateEndTime startTime duration = Some (hh @ '':'' @ mm)"
    using e0' ex by (simp add: calculateEndTime_def p Let_def hh_def mm_def e_def jsRem_def)
  have q0: "0 \<le> e div 60" using e0' by (simp add: pos_imp_zdiv_nonneg_iff)
  have qb: "e div 60 \<le> maxExact" using e0' eb by (simp add: maxExact_def)
  have dh: "list_all isDigit hh" using q0
    by (simp add: hh_def toString_def padStart2_digits toStringNat_digits)
  have dm: "list_all isDigit mm"
    by (simp add: mm_def toString_def padStart2_digits toStringNat_digits)
  have lh: "2 \<le> length hh" by (simp add: hh_def padStart2_length)
  have "nat (e mod 60) < 100" by (simp add: nat_less_iff)
  then have lm: "length mm = 2"
    by (simp add: mm_def toString_def padStart2_length_eq toStringNat_length)
  have l2: "e < 6000 \<longrightarrow> length hh = 2"
  proof
    assume "e < 6000"
    then have "nat (e div 60) < 100" using q0 by (simp add: nat_less_iff; linarith)
    then show "length hh = 2" using q0
      by (simp add: hh_def toString_def padStart2_length_eq toStringNat_length)
  qed
  have l3: "6000 \<le> e \<longrightarrow> 2 < length hh \<and> hd hh \<noteq> CHR ''0''"
  proof
    assume "6000 \<le> e"
    then have n: "100 \<le> nat (e div 60)" by (simp add: le_nat_iff; linarith)
    then have l: "3 \<le> length (toStringNat (nat (e div 60)))" by (rule toStringNat_length3)
    then have "hh = toStringNat (nat (e div 60))" using q0
      by (simp add: hh_def toString_def padStart2_long)
    with l n show "2 < length hh \<and> hd hh \<noteq> CHR ''0''" by (simp add: hd_toStringNat)
  qed
  have nh: "Number hh = Some (e div 60)" using q0 qb
    by (simp add: hh_def Number_padStart2_toString)
  have "e mod 60 \<le> maxExact" by (simp add: maxExact_def; smt (verit) pos_mod_bound)
  then have nm: "Number mm = Some (e mod 60)"
    by (simp add: mm_def Number_padStart2_toString)
  have sp: "split (CHR '':'') (hh @ '':'' @ mm) = [hh, mm]"
    using dh dm by (simp add: split_app split_nosep digits_no_colon)
  have "exact (e div 60 * 60)"
    using e0' eb q0 by (simp add: exact_def maxExact_def; linarith)
  moreover have "exact (e div 60 * 60 + e mod 60)" using ex(4) by simp
  ultimately have rt: "startMinutesOf (hh @ '':'' @ mm) = Some e"
    using sp by (simp add: startMinutesOf_def nh nm)
  show ?thesis
    apply (rule exI [of _ hh], rule exI [of _ mm])
    using ce dh dm lh lm l2 l3 nh nm sp rt unfolding e_def by simp
qed

text \<open>
  The statements written in line in \<open>book.tsx\<close> and in the dashboard compute what
  \<open>calculateEndTime\<close> computes, on the duration of the selected service (60 when no
  service is selected); every page sends that value as \<open>endTime\<close>.
\<close>

lemma inlineEndTime_eq:
  "inlineEndTime svcs serviceId time = calculateEndTime time (selectedDuration svcs serviceId)"
  by (simp add: inlineEndTime_def calculateEndTime_def Let_def split: list.splits option.splits)


lemma mutation_endTime:
  assumes "parseInt (f_serviceId data) = Some serviceId"
    and "parseInt (f_staffId data) = Some staffId"
    and "calculateEndTime (f_time data) (selectedDuration svcs serviceId) = Some endTime"
  shows "map_option (\<lambda>(cd, ad). (ad_startTime ad, ad_endTime ad)) (bookingPage_mutation svcs data) =
           Some (Some (f_time data), Some endTime) \<and>
         map_option (\<lambda>(cd, ad). (ad_startTime ad, ad_endTime ad)) (book_mutation svcs data) =
           Some (Some (f_time data), Some endTime) \<and>
         map_option (\<lambda>(cd, ad). (ad_startTime ad, ad_endTime ad)) (dashboard_mutation svcs data) =
           Some (Some (f_time data), Some endTime)"
  using assms
  by (simp add: bookingPage_mutation_def book_mutation_def dashboard_mutation_def Let_def
      inlineEndTime_eq)




text \<open>
  Claim C10.  The end time is not wrapped at midnight: for a start time \<open>HH:MM\<close> and a
  duration with \<open>HH * 60 + MM + duration \<ge> 1440\<close> (and at most \<open>2^53 - 6039\<close>, the
  range in which the pages' double arithmetic is exact, which holds every value of the
  32-bit duration column), the hour part of the result of \<open>calculateEndTime\<close> reads as
  24 or more, and each of the three pages, for a form with that start time and a
  selected duration of that length, sends this same string as \<open>endTime\<close>: the in-line
  computations of \<open>book.tsx\<close> and the dashboard do not wrap either.  The witness is
  \<open>23:30\<close> with 60 minutes, which gives \<open>24:30\<close> on every page.
\<close>

theorem calculateEndTime_no_wraparound:
  assumes "isDigit h1" "isDigit h2" "isDigit m1" "isDigit m2"
    and "1440 \<le> int (digitVal h1 * 10 + digitVal h2) * 60 + int (digitVal m1 * 10 + digitVal m2)
                  + duration"
    and "duration \<le> maxExact - 6039"
  shows "\<exists>hh mm endHours.
           calculateEndTime [h1, h2, CHR '':'', m1, m2] duration = Some (hh @ '':'' @ mm) \<and>
           split (CHR '':'') (hh @ '':'' @ mm) = [hh, mm] \<and>
           Number hh = Some endHours \<and> 24 \<le> endHours \<and>
           (\<forall>(svcs :: Service list) (data :: BookingForm) serviceId staffId.
              f_time data = [h1, h2, CHR '':'', m1, m2] \<and>
              parseInt (f_serviceId data) = Some serviceId \<and>
              parseInt (f_staffId data) = Some staffId \<and>
              selectedDuration svcs serviceId = duration \<longrightarrow>
              map_option (\<lambda>(cd, ad). ad_endTime ad) (bookingPage_mutation svcs data) =
                Some (Some (hh @ '':'' @ mm)) \<and>
              map_option (\<lambda>(cd, ad). ad_endTime ad) (book_mutation svcs data) =
                Some (Some (hh @ '':'' @ mm)) \<and>
              map_option (\<lambda>(cd, ad). ad_endTime ad) (dashboard_mutation svcs data) =
                Some (Some (hh @ '':'' @ mm)))"
proof -
  let ?h = "int (digitVal h1 * 10 + digitVal h2)" and ?mi = "int (digitVal m1 * 10 + digitVal m2)"
  let ?t = "[h1, h2, CHR '':'', m1, m2]"
  have e0: "0 \<le> ?h * 60 + ?mi + duration" using assms(5) by linarith
  have nn: "0 \<le> ?h" "0 \<le> ?mi" by simp_all
  from calculateEndTime_shape [OF HHMM_pieces [OF assms(1-4)] nn HHMM_bounds [OF assms(1-4)] e0
      assms(6)]
  obtain hh mm where
    r: "calculateEndTime ?t duration = Some (hh @ '':'' @ mm)"
      "Number hh = Some ((?h * 60 + ?mi + duration) div 60)"
      "split (CHR '':'') (hh @ '':'' @ mm) = [hh, mm]"
    by auto
  have g: "24 \<le> (?h * 60 + ?mi + duration) div 60" using assms(5) by linarith
  have pages: "\<forall>(svcs :: Service list) (data :: BookingForm) serviceId staffId.
      f_time data = ?t \<and> parseInt (f_serviceId data) = Some serviceId \<and>
      parseInt (f_staffId data) = Some staffId \<and>
      selectedDuration svcs serviceId = duration \<longrightarrow>
      map_option (\<lambda>(cd, ad). ad_endTime ad) (bookingPage_mutation svcs data) =
        Some (Some (hh @ '':'' @ mm)) \<and>
      map_option (\<lambda>(cd, ad). ad_endTime ad) (book_mutation svcs data) =
        Some (Some (hh @ '':'' @ mm)) \<and>
      map_option (\<lambda>(cd, ad). ad_endTime ad) (dashboard_mutation svcs data) =
        Some (Some (hh @ '':'' @ mm))"
  proof (intro allI impI, elim conjE)
    fix svcs :: "Service list" and data :: BookingForm and serviceId staffId
    assume a: "f_time data = ?t" "parseInt (f_serviceId data) = Some serviceId"
      "parseInt (f_staffId data) = Some staffId" "selectedDuration svcs serviceId = duration"
    with r(1)
    have "calculateEndTime (f_time data) (selectedDuration svcs serviceId) = Some (hh @ '':'' @ mm)"
      by simp
    from mutation_endTime [OF a(2) a(3) this]
    show "map_option (\<lambda>(cd, ad). ad_endTime ad) (bookingPage_mutation svcs data) =
        Some (Some (hh @ '':'' @ mm)) \<and>
      map_option (\<lambda>(cd, ad). ad_endTime ad) (book_mutation svcs data) =
        Some (Some (hh @ '':'' @ mm)) \<and>
      map_option (\<lambda>(cd, ad). ad_endTime ad) (dashboard_mutation svcs data) =
        Some (Some (hh @ '':'' @ mm))"
      by (auto simp: map_option_case split: option.splits)
  qed
  show ?thesis
    apply (rule exI [of _ hh], rule exI [of _ mm],
        rule exI [of _ "(?h * 60 + ?mi + duration) div 60"])
    using r g pages by simp
qed

theorem calculateEndTime_no_wraparound_witness:
  "isDigit (CHR ''2'') \<and> isDigit (CHR ''3'') \<and> isDigit (CHR ''0'') \<and>
   (60::int) \<le> maxExact - 6039 \<and>
   calculateEndTime ''23:30'' 60 = Some ''24:30'' \<and> Number ''24'' = Some 24 \<and>
   f_time form2330 = ''23:30'' \<and> parseInt (f_serviceId form2330) = Some 9 \<and>
   parseInt (f_staffId form2330) = Some 1 \<and> selectedDuration menu 9 = 60 \<and>
   map_option (\<lambda>(cd, ad). ad_endTime ad) (bookingPage_mutation menu form2330) =
     Some (Some ''24:30'') \<and>
   map_option (\<lambda>(cd, ad). ad_endTime ad) (book_mutation menu form2330) = Some (Some ''24:30'') \<and>
   map_option (\<lambda>(cd, ad). ad_endTime ad) (dashboard_mutation menu form2330) =
     Some (Some ''24:30'')"
proof -
  have d: "isDigit (CHR ''2'')" "isDigit (CHR ''3'')" "isDigit (CHR ''0'')"
    by (simp_all add: isDigit_def)
  have a: "1440 \<le> int (digitVal (CHR ''2'') * 10 + digitVal (CHR ''3'')) * 60
             + int (digitVal (CHR ''3'') * 10 + digitVal (CHR ''0'')) + 60"
    by (simp add: digitVal_def)
  have b: "(60::int) \<le> maxExact - 6039" by (simp add: maxExact_def)
  have c: "calculateEndTime ''23:30'' 60 = Some ''24:30''" by code_simp
  have n: "Number ''24'' = Some 24" by code_simp
  have f: "f_time form2330 = ''23:30''" by (simp add: form2330_def)
  have i: "parseInt (f_serviceId form2330) = Some 9" by code_simp
  have j: "parseInt (f_staffId form2330) = Some 1" by code_simp
  have s: "selectedDuration menu 9 = 60" by (simp add: selectedDuration_def menu_def)
  from calculateEndTime_no_wraparound [OF d(1) d(2) d(2) d(3) a b] obtain hh mm where
    e: "calculateEndTime ''23:30'' 60 = Some (hh @ '':'' @ mm)"
    and pages: "\<forall>(svcs :: Service list) (data :: BookingForm) serviceId staffId.
      f_time data = ''23:30'' \<and> parseInt (f_serviceId data) = Some serviceId \<and>
      parseInt (f_staffId data) = Some staffId \<and> selectedDuration svcs serviceId = 60 \<longrightarrow>
      map_option (\<lambda>(cd, ad). ad_endTime ad) (bookingPage_mutation svcs data) =
        Some (Some (hh @ '':'' @ mm)) \<and>
      map_option (\<lambda>(cd, ad). ad_endTime ad) (book_mutation svcs data) =
        Some (Some (hh @ '':'' @ mm)) \<and>
      map_option (\<lambda>(cd, ad). ad_endTime ad) (dashboard_mutation svcs data) =
        Some (Some (hh @ '':'' @ mm))"
    by auto
  from e c have eq: "hh @ '':'' @ mm = ''24:30''" by simp
  from pages [rule_format, of form2330 9 1 menu] f i j s eq d b c n show ?thesis by simp
qed

section \<open>Customer lookup and resolution\<close>

lemma find_append_cases:
  "find P (xs @ ys) = (case find P xs of None \<Rightarrow> find P ys | Some x \<Rightarrow> Some x)"
  by (induction xs) auto

lemma find_Some_in: "find P xs = Some x \<Longrightarrow> x \<in> set xs \<and> P x"
  by (induction xs) (auto split: if_splits)

lemma find_None_all: "find P xs = None \<longleftrightarrow> (\<forall>x\<in>set xs. \<not> P x)"
  by (induction xs) auto

text \<open>
  Claim C9.  With neither an email nor a phone provided (each absent, or empty, which
  JavaScript treats alike), \<open>getCustomerByContact\<close> returns \<open>undefined\<close> for every
  business and every content of the table: no row is matched by any other field.  The
  function returns no database, so it inserts nothing.
\<close>

theorem getCustomerByContact_no_contact:
  "\<not> truthy email \<Longrightarrow> \<not> truthy phone \<Longrightarrow> getCustomerByContact db businessId email phone = None"
  by (simp add: getCustomerByContact_def)

theorem getCustomerByContact_no_contact_witness:
  "\<not> truthy None \<and> \<not> truthy (Some '''') \<and>
   getCustomerByContact scenarioDb 1 None None = None \<and>
   getCustomerByContact scenarioDb 1 (Some '''') None = None"
proof -
  have a: "\<not> truthy None" and b: "\<not> truthy (Some '''')" by (simp_all add: truthy_def)
  from getCustomerByContact_no_contact [OF a a, of scenarioDb 1]
    getCustomerByContact_no_contact [OF b a, of scenarioDb 1] a b
  show ?thesis by simp
qed

lemma getCustomerByContact_Some:
  assumes "getCustomerByContact db bid email phone = Some c"
  shows "c \<in> set (customers db) \<and> c_businessId c = bid \<and>
         (truthy email \<and> c_email c = email \<or> truthy phone \<and> c_phone c = phone)"
  using assms
  by (auto simp: getCustomerByContact_def split: option.splits if_splits dest: find_Some_in)

lemma getCustomerByContact_email:
  "getCustomerByContact db bid (cd_email cd) (cd_phone cd) =
     (case find (emailMatch bid cd) (customers db) of
        Some c \<Rightarrow> Some c
      | None \<Rightarrow> find (phoneMatch bid cd) (customers db))"
proof -
  have e: "(if truthy (cd_email cd)
            then find (\<lambda>c. c_businessId c = bid \<and> c_email c = cd_email cd) (customers db)
            else None) = find (emailMatch bid cd) (customers db)"
  proof (cases "truthy (cd_email cd)")
    case True
    then have "emailMatch bid cd = (\<lambda>c. c_businessId c = bid \<and> c_email c = cd_email cd)"
      by (auto simp: emailMatch_def)
    with True show ?thesis by simp
  next
    case False
    then have "find (emailMatch bid cd) (customers db) = None"
      by (simp add: find_None_all emailMatch_def)
    with False show ?thesis by simp
  qed
  have p: "(if truthy (cd_phone cd)
            then find (\<lambda>c. c_businessId c = bid \<and> c_phone c = cd_phone cd) (customers db)
            else None) = find (phoneMatch bid cd) (customers db)"
  proof (cases "truthy (cd_phone cd)")
    case True
    then have "phoneMatch bid cd = (\<lambda>c. c_businessId c = bid \<and> c_phone c = cd_phone cd)"
      by (auto simp: phoneMatch_def)
    with True show ?thesis by simp
  next
    case False
    then have "find (phoneMatch bid cd) (customers db) = None"
      by (simp add: find_None_all phoneMatch_def)
    with False show ?thesis by simp
  qed
  show ?thesis unfolding getCustomerByContact_def e p ..
qed

lemma createCustomer_result:
  "createCustomer db now v bid = (db1, Inr c) \<Longrightarrow>
     customers db1 = customers db @ [c] \<and> c_businessId c = bid \<and> c_name c = ic_name v \<and>
     c_email c = ic_email v \<and> c_phone c = ic_phone v \<and> c_notes c = ic_notes v \<and>
     c_id c = customers_id_seq db \<and>
     businesses db1 = businesses db \<and> services db1 = services db \<and> staff db1 = staff db \<and>
     appointments db1 = appointments db \<and> appointments_id_seq db1 = appointments_id_seq db"
  by (auto simp: createCustomer_def Let_def split: if_splits)


lemma findOrCreateCustomer_found:
  "getCustomerByContact db bid (cd_email cd) (cd_phone cd) = Some c \<Longrightarrow>
     findOrCreateCustomer db now bid cd = (db, Inr c)"
  by (simp add: findOrCreateCustomer_def)

lemma findOrCreateCustomer_Inr:
  assumes "findOrCreateCustomer db now bid cd = (db1, Inr c)"
  shows "c \<in> set (customers db1) \<and> c_businessId c = bid \<and>
         businesses db1 = businesses db \<and> services db1 = services db \<and> staff db1 = staff db \<and>
         appointments db1 = appointments db \<and> appointments_id_seq db1 = appointments_id_seq db \<and>
         (customers db1 = customers db \<or> customers db1 = customers db @ [c])"
  using assms
  by (auto simp: findOrCreateCustomer_def insertCustomerSchema_parse_def
      split: option.splits sum.splits
      dest!: getCustomerByContact_Some createCustomer_result)

text \<open>
  Claim C5, amended.  Customer resolution is the first part of the booking route.  A
  field counts as provided when it is a non-empty string.  For every database,
  business and customer input:
  \<^item> when some customer of the business has the provided email, resolution returns such
    a customer and leaves the database as it is;
  \<^item> when none has, and some customer of the business has the provided phone,
    resolution returns such a customer and leaves the database as it is;
  \<^item> the customers table changes only if neither lookup matches, and then by exactly
    one new row at its end, which carries the business and the supplied name, email,
    phone and notes;
  \<^item> when neither matches, the name is present and the business exists, that row is
    created.

  The witness is the scenario: a booking that supplies only Ann's phone resolves to
  customer 1 and changes nothing.
\<close>

theorem findOrCreateCustomer_resolution:
  assumes run: "findOrCreateCustomer db now bid cd = (db', r)"
  shows "((\<exists>c\<in>set (customers db). emailMatch bid cd c) \<longrightarrow>
            db' = db \<and> (\<exists>c\<in>set (customers db). emailMatch bid cd c \<and> r = Inr c)) \<and>
         (\<not> (\<exists>c\<in>set (customers db). emailMatch bid cd c) \<and>
          (\<exists>c\<in>set (customers db). phoneMatch bid cd c) \<longrightarrow>
            db' = db \<and> (\<exists>c\<in>set (customers db). phoneMatch bid cd c \<and> r = Inr c)) \<and>
         (customers db' \<noteq> customers db \<longrightarrow>
            \<not> (\<exists>c\<in>set (customers db). emailMatch bid cd c) \<and>
            \<not> (\<exists>c\<in>set (customers db). phoneMatch bid cd c) \<and>
            (\<exists>c. r = Inr c \<and> customers db' = customers db @ [c] \<and> c_businessId c = bid \<and>
                 cd_name cd = Some (c_name c) \<and> c_email c = cd_email cd \<and>
                 c_phone c = cd_phone cd \<and> c_notes c = cd_notes cd)) \<and>
         (\<not> (\<exists>c\<in>set (customers db). emailMatch bid cd c) \<and>
          \<not> (\<exists>c\<in>set (customers db). phoneMatch bid cd c) \<and>
          cd_name cd \<noteq> None \<and> bid \<in> set (map b_id (businesses db)) \<longrightarrow>
            (\<exists>c. r = Inr c \<and> customers db' = customers db @ [c]))"
proof (cases "find (emailMatch bid cd) (customers db)")
  case (Some c)
  then have m: "c \<in> set (customers db)" "emailMatch bid cd c" by (auto dest: find_Some_in)
  have "getCustomerByContact db bid (cd_email cd) (cd_phone cd) = Some c"
    by (simp add: getCustomerByContact_email Some)
  with run have "db' = db" "r = Inr c" by (simp_all add: findOrCreateCustomer_def)
  with m show ?thesis by auto
next
  case None
  then have ne: "\<not> (\<exists>c\<in>set (customers db). emailMatch bid cd c)" by (simp add: find_None_all)
  show ?thesis
  proof (cases "find (phoneMatch bid cd) (customers db)")
    case (Some c)
    then have m: "c \<in> set (customers db)" "phoneMatch bid cd c" by (auto dest: find_Some_in)
    have "getCustomerByContact db bid (cd_email cd) (cd_phone cd) = Some c"
      by (simp add: getCustomerByContact_email None Some)
    with run have "db' = db" "r = Inr c" by (simp_all add: findOrCreateCustomer_def)
    with m ne show ?thesis by auto
  next
    case np: None
    then have np': "\<not> (\<exists>c\<in>set (customers db). phoneMatch bid cd c)" by (simp add: find_None_all)
    have g: "getCustomerByContact db bid (cd_email cd) (cd_phone cd) = None"
      by (simp add: getCustomerByContact_email None np)
    show ?thesis
    proof (cases "cd_name cd")
      case None
      with g run have "db' = db" by (simp add: findOrCreateCustomer_def insertCustomerSchema_parse_def)
      with ne np' None show ?thesis by simp
    next
      case (Some n)
      with g run have c: "createCustomer db now
          \<lparr>ic_name = n, ic_email = cd_email cd, ic_phone = cd_phone cd, ic_notes = cd_notes cd\<rparr> bid
          = (db', r)"
        by (simp add: findOrCreateCustomer_def insertCustomerSchema_parse_def)
      show ?thesis
      proof (cases "bid \<in> set (map b_id (businesses db))")
        case True
        with c ne np' Some show ?thesis by (auto simp: createCustomer_def Let_def)
      next
        case False
        with c ne np' Some show ?thesis by (auto simp: createCustomer_def Let_def)
      qed
    qed
  qed
qed

theorem findOrCreateCustomer_resolution_witness:
  "cd_email annByPhone = None \<and> cd_phone annByPhone = Some ''555-0100'' \<and>
   map c_phone (customers scenarioDb) = [Some ''555-0100''] \<and>
   fst (findOrCreateCustomer scenarioDb 3 1 annByPhone) = scenarioDb \<and>
   map_sum id c_id (snd (findOrCreateCustomer scenarioDb 3 1 annByPhone)) = Inr 1"
proof -
  have p: "\<exists>c\<in>set (customers scenarioDb). phoneMatch 1 annByPhone c"
    by (simp add: scenarioDb_def annByPhone_def phoneMatch_def truthy_def)
  have e: "\<not> (\<exists>c\<in>set (customers scenarioDb). emailMatch 1 annByPhone c)"
    by (simp add: scenarioDb_def annByPhone_def emailMatch_def truthy_def)
  have i: "\<forall>c\<in>set (customers scenarioDb). c_id c = 1" by (simp add: scenarioDb_def)
  from findOrCreateCustomer_resolution
    [of scenarioDb 3 1 annByPhone "fst (findOrCreateCustomer scenarioDb 3 1 annByPhone)"
      "snd (findOrCreateCustomer scenarioDb 3 1 annByPhone)"] p e
  have "fst (findOrCreateCustomer scenarioDb 3 1 annByPhone) = scenarioDb \<and>
        (\<exists>c\<in>set (customers scenarioDb). snd (findOrCreateCustomer scenarioDb 3 1 annByPhone) = Inr c)"
    by auto
  with i show ?thesis by (auto simp: annByPhone_def scenarioDb_def)
qed

text \<open>
  As stated, for every customer input, the claim fails at the empty email, which the
  guard \<open>if (email)\<close> treats as no email: after a first booking with email \<open>""\<close> and
  no phone has created customer 2, whose email is exactly \<open>""\<close>, a second booking with
  the same input does not return customer 2 but inserts customer 3.
\<close>

theorem matching_blank_email_counterexample:
  "\<lparr>c_id = 2, c_businessId = 1, c_name = ''Bob'', c_email = cd_email blankEmail, c_phone = None,
     c_notes = None, c_createdAt = 4\<rparr>
     \<in> set (customers (fst (findOrCreateCustomer scenarioDb 4 1 blankEmail))) \<and>
   snd (findOrCreateCustomer (fst (findOrCreateCustomer scenarioDb 4 1 blankEmail)) 5 1 blankEmail) =
     Inr \<lparr>c_id = 3, c_businessId = 1, c_name = ''Bob'', c_email = Some [], c_phone = None,
          c_notes = None, c_createdAt = 5\<rparr> \<and>
   length (customers (fst (findOrCreateCustomer
      (fst (findOrCreateCustomer scenarioDb 4 1 blankEmail)) 5 1 blankEmail))) = 3"
  by code_simp

text \<open>
  Claim C6, amended.  For every business and every non-empty email: when resolution
  of an input with that email returns a customer, resolving again, at any later time,
  any input with the same email returns the same customer and leaves the database as
  the first run left it, so it inserts no row, provided the customer returned first
  carries that email (it was found by the email, or just created) or the second input
  repeats the phone of the first.  The witness is an email that is new to the
  business: the first run creates customer 2, and a second run with the same email,
  another name and another phone returns customer 2.
\<close>

theorem findOrCreateCustomer_idempotent:
  assumes e: "cd_email cd = Some e" "e \<noteq> []"
    and run: "findOrCreateCustomer db now bid cd = (db1, Inr c)"
    and again: "cd_email cd' = Some e"
    and key: "c_email c = Some e \<or> cd_phone cd' = cd_phone cd"
  shows "findOrCreateCustomer db1 now' bid cd' = (db1, Inr c)"
proof -
  have em: "emailMatch bid cd' = emailMatch bid cd"
    using e again by (auto simp: emailMatch_def)
  show ?thesis
  proof (cases "find (emailMatch bid cd) (customers db)")
    case (Some c0)
    then have "getCustomerByContact db bid (cd_email cd) (cd_phone cd) = Some c0"
      by (simp add: getCustomerByContact_email)
    with run have "db1 = db" "c = c0" by (simp_all add: findOrCreateCustomer_def)
    with Some em have "getCustomerByContact db1 bid (cd_email cd') (cd_phone cd') = Some c"
      by (simp add: getCustomerByContact_email)
    then show ?thesis by (rule findOrCreateCustomer_found)
  next
    case None
    show ?thesis
    proof (cases "find (phoneMatch bid cd) (customers db)")
      case (Some c0)
      then have m: "c0 \<in> set (customers db)" "c_businessId c0 = bid" by (auto dest: find_Some_in simp: phoneMatch_def)
      from Some None have "getCustomerByContact db bid (cd_email cd) (cd_phone cd) = Some c0"
        by (simp add: getCustomerByContact_email)
      with run have eq: "db1 = db" "c = c0" by (simp_all add: findOrCreateCustomer_def)
      have "\<not> emailMatch bid cd c0" using None m(1) by (simp add: find_None_all)
      then have "c_email c \<noteq> Some e" using e m(2) eq by (simp add: emailMatch_def truthy_def)
      with key have "cd_phone cd' = cd_phone cd" by simp
      then have "phoneMatch bid cd' = phoneMatch bid cd" by (auto simp: phoneMatch_def)
      with Some None em eq
      have "getCustomerByContact db1 bid (cd_email cd') (cd_phone cd') = Some c"
        by (simp add: getCustomerByContact_email)
      then show ?thesis by (rule findOrCreateCustomer_found)
    next
      case np: None
      with None have "getCustomerByContact db bid (cd_email cd) (cd_phone cd) = None"
        by (simp add: getCustomerByContact_email)
      with run obtain v where "createCustomer db now v bid = (db1, Inr c)"
        and v: "ic_email v = cd_email cd"
        by (auto simp: findOrCreateCustomer_def insertCustomerSchema_parse_def split: option.splits)
      then have c: "customers db1 = customers db @ [c]" "c_businessId c = bid"
        "c_email c = cd_email cd"
        by (auto dest: createCustomer_result)
      have "emailMatch bid cd c" using c e by (simp add: emailMatch_def truthy_def)
      then have "find (emailMatch bid cd') (customers db1) = Some c"
        by (simp add: em c(1) find_append_cases None)
      then have "getCustomerByContact db1 bid (cd_email cd') (cd_phone cd') = Some c"
        by (simp add: getCustomerByContact_email)
      then show ?thesis by (rule findOrCreateCustomer_found)
    qed
  qed
qed

theorem findOrCreateCustomer_idempotent_witness:
  "cd_email zedByEmail = Some ''zed@example.com'' \<and> ''zed@example.com'' \<noteq> [] \<and>
   cd_email zedOtherPhone = Some ''zed@example.com'' \<and>
   cd_phone zedOtherPhone \<noteq> cd_phone zedByEmail \<and>
   snd (findOrCreateCustomer scenarioDb 4 1 zedByEmail) =
     Inr \<lparr>c_id = 2, c_businessId = 1, c_name = ''Zed'', c_email = Some ''zed@example.com'',
          c_phone = None, c_notes = None, c_createdAt = 4\<rparr> \<and>
   findOrCreateCustomer (fst (findOrCreateCustomer scenarioDb 4 1 zedByEmail)) 5 1 zedOtherPhone =
     findOrCreateCustomer scenarioDb 4 1 zedByEmail"
proof -
  let ?c = "\<lparr>c_id = 2, c_businessId = 1, c_name = ''Zed'', c_email = Some ''zed@example.com'',
          c_phone = None, c_notes = None, c_createdAt = 4\<rparr>"
  have e: "cd_email zedByEmail = Some ''zed@example.com''" by (simp add: zedByEmail_def)
  have n: "''zed@example.com'' \<noteq> []" by simp
  have e': "cd_email zedOtherPhone = Some ''zed@example.com''" by (simp add: zedOtherPhone_def)
  have p: "cd_phone zedOtherPhone \<noteq> cd_phone zedByEmail"
    by (simp add: zedOtherPhone_def zedByEmail_def)
  obtain db1 where r: "findOrCreateCustomer scenarioDb 4 1 zedByEmail = (db1, Inr ?c)"
    by (simp add: findOrCreateCustomer_def getCustomerByContact_def truthy_def scenarioDb_def
        zedByEmail_def insertCustomerSchema_parse_def createCustomer_def Let_def)
  have k: "c_email ?c = Some ''zed@example.com'' \<or> cd_phone zedOtherPhone = cd_phone zedByEmail"
    by simp
  from findOrCreateCustomer_idempotent [OF e n r e' k, of 5] r e e' p show ?thesis by simp
qed

text \<open>
  As stated, for every email and keyed on the email alone, the claim fails twice.  At
  the empty email, which the guard \<open>if (email)\<close> treats as no email, two runs with the
  same input return customers 2 and 3.  And at a non-empty email that no customer
  carries: a first run with Ann's phone returns customer 1, found by the phone and left
  without the email, and a second run with the same email and another phone creates
  customer 2.
\<close>

theorem email_key_not_idempotent_counterexample:
  "map_sum id c_id (snd (findOrCreateCustomer scenarioDb 4 1 blankEmail)) = Inr 2 \<and>
   map_sum id c_id
     (snd (findOrCreateCustomer (fst (findOrCreateCustomer scenarioDb 4 1 blankEmail)) 5 1
        blankEmail)) = Inr 3 \<and>
   length (customers (fst (findOrCreateCustomer scenarioDb 4 1 blankEmail))) = 2 \<and>
   length (customers (fst (findOrCreateCustomer
      (fst (findOrCreateCustomer scenarioDb 4 1 blankEmail)) 5 1 blankEmail))) = 3 \<and>
   cd_email annEmailOtherPhone = cd_email annEmailPhone \<and>
   cd_email annEmailPhone = Some ''ann@example.com'' \<and>
   findOrCreateCustomer scenarioDb 4 1 annEmailPhone =
     (scenarioDb,
      Inr \<lparr>c_id = 1, c_businessId = 1, c_name = ''Ann'', c_email = None,
           c_phone = Some ''555-0100'', c_notes = None, c_createdAt = 1\<rparr>) \<and>
   snd (findOrCreateCustomer scenarioDb 5 1 annEmailOtherPhone) =
     Inr \<lparr>c_id = 2, c_businessId = 1, c_name = ''Ann'', c_email = Some ''ann@example.com'',
          c_phone = Some ''555-0199'', c_notes = None, c_createdAt = 5\<rparr> \<and>
   length (customers (fst (findOrCreateCustomer scenarioDb 5 1 annEmailOtherPhone))) = 2"
  by code_simp

text \<open>
  Claim C7, amended.  The schema of the route requires \<open>name\<close> to be a string and puts
  no bound on its length.  For every customer input without a name that matches no
  customer by contact, resolution fails with a \<open>ZodError\<close> on \<open>name\<close>, and so does the
  route; the database is unchanged, so no customer row is created.
\<close>

theorem missing_name_rejected:
  assumes "cd_name cd = None"
    and "getCustomerByContact db bid (cd_email cd) (cd_phone cd) = None"
  shows "findOrCreateCustomer db now bid cd = (db, Inl (ZodError [''name''])) \<and>
         postBookAppointment db now bid cd ad = (db, Inl (ZodError [''name'']))"
  using assms
  by (simp add: postBookAppointment_def findOrCreateCustomer_def insertCustomerSchema_parse_def)

theorem missing_name_rejected_witness:
  "cd_name noName = None \<and>
   getCustomerByContact scenarioDb 1 (cd_email noName) (cd_phone noName) = None \<and>
   postBookAppointment scenarioDb 4 1 noName (bookingRequest ''11:00'' ''11:30'') =
     (scenarioDb, Inl (ZodError [''name'']))"
proof -
  have n: "cd_name noName = None" by (simp add: noName_def)
  have g: "getCustomerByContact scenarioDb 1 (cd_email noName) (cd_phone noName) = None"
    by (simp add: getCustomerByContact_def truthy_def scenarioDb_def noName_def)
  from missing_name_rejected [OF n g, of 4 "bookingRequest ''11:00'' ''11:30''"] n g
  show ?thesis by simp
qed

text \<open>
  As stated, the claim fails: a customer input whose name is the empty string passes
  \<open>z.string()\<close>, and resolution creates customer 2 with the empty name.  (Only the
  forms of the pages ask for a name of at least one character.)
\<close>

theorem empty_name_accepted_counterexample:
  "cd_name emptyName = Some [] \<and>
   snd (findOrCreateCustomer scenarioDb 4 1 emptyName) =
     Inr \<lparr>c_id = 2, c_businessId = 1, c_name = [], c_email = Some ''zed@example.com'',
          c_phone = None, c_notes = None, c_createdAt = 4\<rparr> \<and>
   length (customers (fst (findOrCreateCustomer scenarioDb 4 1 emptyName))) = 2"
  by code_simp

section \<open>The booking routes\<close>

lemma createAppointment_Inr:
  assumes "createAppointment db now v businessId = (db2, Inr a)"
  shows "appointments db2 = appointments db @ [a] \<and> customers db2 = customers db \<and>
         a_customerId a = ia_customerId v \<and> a_staffId a = ia_staffId v \<and>
         a_date a = ia_date v \<and> a_startTime a = ia_startTime v \<and> a_endTime a = ia_endTime v \<and>
         a_status a = (case ia_status v of None \<Rightarrow> ''pending'' | Some s \<Rightarrow> s)"
  using assms by (auto simp: createAppointment_def Let_def split: option.splits if_splits)

lemma createAppointment_Inl:
  assumes "createAppointment db now v businessId = (db2, Inl e)"
  shows "appointments db2 = appointments db \<and> customers db2 = customers db"
  using assms by (auto simp: createAppointment_def Let_def split: option.splits if_splits)




text \<open>
  Claim C1.  The repository advertises conflict prevention (\<open>README.md\<close>: "Slot-based
  scheduling with conflict prevention"; the landing page and the login page say the
  same), and the claim asks for it: of two bookings for the same staff member and date
  whose windows overlap, the later one is to be rejected with a \<open>ConflictError\<close>.  The
  route does not do it.  \<open>createAppointment\<close> is a bare insert, nothing in the route
  reads the appointments table, and the code has no \<open>ConflictError\<close>.  In the
  scenario, with the confirmed appointment from 10:00 to 10:30 in place, the booking
  from 10:15 to 10:45 for the same staff member and date is accepted and stored next to
  it as appointment 2, where the claim has it rejected.  The back-to-back booking from
  10:30 to 11:00 succeeds, as the claim says.
\<close>

theorem overlapping_booking_accepted:
  "appointments scenarioDb =
     [\<lparr>a_id = 1, a_businessId = 1, a_customerId = 1, a_serviceId = 1, a_staffId = 1,
       a_date = ''2024-01-10'', a_startTime = ''10:00'', a_endTime = ''10:30'',
       a_status = ''confirmed'', a_notes = None, a_createdAt = 2\<rparr>] \<and>
   snd (postBookAppointment scenarioDb 3 1 annByPhone (bookingRequest ''10:15'' ''10:45'')) =
     Inr (\<lparr>a_id = 2, a_businessId = 1, a_customerId = 1, a_serviceId = 1, a_staffId = 1,
           a_date = ''2024-01-10'', a_startTime = ''10:15'', a_endTime = ''10:45'',
           a_status = ''pending'', a_notes = None, a_createdAt = 3\<rparr>,
          \<lparr>c_id = 1, c_businessId = 1, c_name = ''Ann'', c_email = None,
           c_phone = Some ''555-0100'', c_notes = None, c_createdAt = 1\<rparr>) \<and>
   map (\<lambda>a. (a_staffId a, a_date a, a_startTime a, a_endTime a))
     (appointments
       (fst (postBookAppointment scenarioDb 3 1 annByPhone (bookingRequest ''10:15'' ''10:45'')))) =
     [(1, ''2024-01-10'', ''10:00'', ''10:30''), (1, ''2024-01-10'', ''10:15'', ''10:45'')] \<and>
   map_sum id (\<lambda>(a, c). (a_staffId a, a_date a, a_startTime a, a_endTime a))
     (snd (postBookAppointment scenarioDb 3 1 annByPhone (bookingRequest ''10:30'' ''11:00''))) =
     Inr (1, ''2024-01-10'', ''10:30'', ''11:00'')"
  by code_simp

text \<open>
  Claim C2, amended.  The route runs customer resolution and the appointment insert as
  separate statements.  Once resolution has returned a customer, the customers table
  stays as resolution left it, whether the appointment step then fails or succeeds: a
  customer created by the resolution persists when the appointment is rejected, and
  then no appointment row is added.  When the route succeeds, exactly one appointment
  is appended; it references the resolved customer, and that customer is a row of the
  customers table.
\<close>

theorem postBookAppointment_customer_step_persists:
  assumes cust: "findOrCreateCustomer db now bid cd = (db1, Inr c)"
  shows "(case postBookAppointment db now bid cd ad of
            (db2, Inl e) \<Rightarrow>
              customers db2 = customers db1 \<and> appointments db2 = appointments db
          | (db2, Inr (a, c')) \<Rightarrow>
              c' = c \<and> customers db2 = customers db1 \<and> c \<in> set (customers db2) \<and>
              a_customerId a = c_id c \<and> appointments db2 = appointments db @ [a])"
proof -
  from findOrCreateCustomer_Inr [OF cust] have c: "c \<in> set (customers db1)"
    and same: "appointments db1 = appointments db" by simp_all
  show ?thesis
  proof (cases "insertAppointmentSchema_parse ad")
    case (Inl e)
    then show ?thesis by (simp add: postBookAppointment_def cust same)
  next
    case (Inr v)
    obtain db2 r where ca: "createAppointment db1 now (v\<lparr>ia_customerId := c_id c\<rparr>) bid = (db2, r)"
      by (cases "createAppointment db1 now (v\<lparr>ia_customerId := c_id c\<rparr>) bid") auto
    show ?thesis
    proof (cases r)
      case (Inl e)
      with ca createAppointment_Inl [of db1 now _ bid db2 e] same show ?thesis
        by (simp add: postBookAppointment_def cust Inr)
    next
      case r: (Inr a)
      with ca createAppointment_Inr [of db1 now "v\<lparr>ia_customerId := c_id c\<rparr>" bid db2 a] same c
      show ?thesis by (simp add: postBookAppointment_def cust Inr)
    qed
  qed
qed

theorem postBookAppointment_customer_step_persists_witness:
  "map_sum id c_id (snd (findOrCreateCustomer scenarioDb 4 1 zedByEmail)) = Inr 2 \<and>
   snd (postBookAppointment scenarioDb 4 1 zedByEmail noDate) = Inl (ZodError [''date'']) \<and>
   customers (fst (postBookAppointment scenarioDb 4 1 zedByEmail noDate)) =
     customers (fst (findOrCreateCustomer scenarioDb 4 1 zedByEmail)) \<and>
   appointments (fst (postBookAppointment scenarioDb 4 1 zedByEmail noDate)) =
     appointments scenarioDb"
proof -
  obtain db1 c where r: "findOrCreateCustomer scenarioDb 4 1 zedByEmail = (db1, Inr c)"
    and i: "c_id c = 2"
    by (simp add: findOrCreateCustomer_def getCustomerByContact_def truthy_def scenarioDb_def
        zedByEmail_def insertCustomerSchema_parse_def createCustomer_def Let_def)
  have p: "insertAppointmentSchema_parse noDate = Inl (ZodError [''date''])"
    by (simp add: insertAppointmentSchema_parse_def insertAppointmentSchema_issues_def
        missing_def invalidInt_def int4_def noDate_def)
  have s: "snd (postBookAppointment scenarioDb 4 1 zedByEmail noDate) = Inl (ZodError [''date''])"
    by (simp add: postBookAppointment_def r p)
  from postBookAppointment_customer_step_persists [OF r, of noDate] r i s show ?thesis
    by (cases "postBookAppointment scenarioDb 4 1 zedByEmail noDate") auto
qed

text \<open>
  As stated, the claim fails: a booking by a new customer whose appointment data lacks
  the date creates customer 2, then fails with a \<open>ZodError\<close>; the customer row stays
  and no appointment is inserted.
\<close>

theorem orphaned_customer_counterexample:
  "customers (fst (postBookAppointment scenarioDb 4 1 zedByEmail noDate)) =
     customers scenarioDb @
       [\<lparr>c_id = 2, c_businessId = 1, c_name = ''Zed'', c_email = Some ''zed@example.com'',
         c_phone = None, c_notes = None, c_createdAt = 4\<rparr>] \<and>
   appointments (fst (postBookAppointment scenarioDb 4 1 zedByEmail noDate)) =
     appointments scenarioDb \<and>
   snd (postBookAppointment scenarioDb 4 1 zedByEmail noDate) = Inl (ZodError [''date''])"
  by code_simp






section \<open>Status updates\<close>

lemma applyPatch_statusPatch: "applyPatch (statusPatch s) a = a\<lparr>a_status := s\<rparr>"
  by (simp add: applyPatch_def statusPatch_def orKeep_def)

lemma find_map_same_id:
  assumes "\<And>x. a_id (f x) = a_id x"
  shows "find (\<lambda>a. a_id a = i) (map f xs) = map_option f (find (\<lambda>a. a_id a = i) xs)"
  by (induction xs) (simp_all add: assms)

text \<open>
  Claim C4, amended.  \<open>updateAppointment\<close> checks no transition: for every stored
  appointment, whatever its current status, and every requested status, the update
  succeeds, returns the row with the requested status, and the stored row then has
  that status.  The code has no state-transition error.  The witness moves the
  completed appointment of the scenario to \<open>cancelled\<close>.
\<close>

theorem updateAppointment_sets_any_status:
  assumes "getAppointment db i = Some a"
  shows "snd (updateAppointment db i (statusPatch s)) = Inr (Some (a\<lparr>a_status := s\<rparr>)) \<and>
         getAppointment (fst (updateAppointment db i (statusPatch s))) i =
           Some (a\<lparr>a_status := s\<rparr>)"
proof -
  let ?f = "\<lambda>x. if a_id x = i then applyPatch (statusPatch s) x else x"
  from assms have f: "find (\<lambda>a. a_id a = i) (appointments db) = Some a"
    by (simp add: getAppointment_def)
  have nv: "\<not> noValues (statusPatch s)" by (simp add: noValues_def statusPatch_def)
  have ok: "update_constraint_error db a (a\<lparr>a_status := s\<rparr>) = None"
    by (simp add: update_constraint_error_def)
  have u: "updateAppointment db i (statusPatch s) =
             (db\<lparr>appointments := map ?f (appointments db)\<rparr>, Inr (Some (a\<lparr>a_status := s\<rparr>)))"
    by (simp add: updateAppointment_def nv f applyPatch_statusPatch ok)
  have id: "\<And>x. a_id (?f x) = a_id x" by (simp add: applyPatch_statusPatch)
  from f have "a_id a = i" by (auto dest: find_Some_in)
  then have "find (\<lambda>a. a_id a = i) (map ?f (appointments db)) = Some (a\<lparr>a_status := s\<rparr>)"
    unfolding find_map_same_id [of ?f, OF id] by (simp add: f applyPatch_statusPatch)
  with u show ?thesis by (simp add: getAppointment_def)
qed

theorem updateAppointment_sets_any_status_witness:
  "map_option a_status (getAppointment completedDb 1) = Some ''completed'' \<and>
   map_option a_status
     (getAppointment (fst (updateAppointment completedDb 1 (statusPatch ''cancelled''))) 1) =
     Some ''cancelled''"
proof -
  let ?a = "\<lparr>a_id = 1, a_businessId = 1, a_customerId = 1, a_serviceId = 1, a_staffId = 1,
            a_date = ''2024-01-10'', a_startTime = ''10:00'', a_endTime = ''10:30'',
            a_status = ''completed'', a_notes = None, a_createdAt = 2\<rparr>"
  have g: "getAppointment completedDb 1 = Some ?a" by code_simp
  have s: "a_status ?a = ''completed''" by simp
  from updateAppointment_sets_any_status [OF g, of "''cancelled''"] g s show ?thesis by simp
qed

text \<open>
  As stated, the claim fails: the update of a completed appointment to \<open>pending\<close>
  succeeds and the stored status becomes \<open>pending\<close>.
\<close>

theorem completed_to_pending_counterexample:
  "map_option a_status (getAppointment completedDb 1) = Some ''completed'' \<and>
   snd (updateAppointment completedDb 1 (statusPatch ''pending'')) =
     Inr (Some \<lparr>a_id = 1, a_businessId = 1, a_customerId = 1, a_serviceId = 1, a_staffId = 1,
                a_date = ''2024-01-10'', a_startTime = ''10:00'', a_endTime = ''10:30'',
                a_status = ''pending'', a_notes = None, a_createdAt = 2\<rparr>) \<and>
   map_option a_status
     (getAppointment (fst (updateAppointment completedDb 1 (statusPatch ''pending''))) 1) =
     Some ''pending''"
  by code_simp

end
